theory Spec2Isabelle
  imports Main
begin

section \<open>The scout group frontend (frontend/src/App.js)\<close>

text \<open>
  The application is one file of React components. Each component keeps its state in
  \<open>useState\<close> cells and changes it in event handlers; a handler that awaits a backend call
  continues with the response or, on a rejected promise, in its \<open>catch\<close> block.
  A component is modelled as a record of its state cells, a handler as a function that takes
  what the environment supplies (the answer of \<open>window.confirm\<close>, the outcome of each awaited
  request) and the state, and returns the new state with the trace of effects it performed, in
  the order the handler performs them.

  JavaScript strings are modelled as \<open>string\<close>; a letter outside ASCII in a message of the
  source is written as its UTF-8 bytes.
\<close>

subsection \<open>Requests, responses and effects\<close>

text \<open>A promise of \<open>axios\<close> rejects on a status outside 2xx or when no response arrives.\<close>

datatype http_error = BadStatus nat | NetworkError

type_synonym 'a response = "http_error + 'a"

text \<open>The value of \<open>localStorage.getItem('adminToken')\<close>: \<open>None\<close> is \<open>null\<close>.\<close>

type_synonym stored_token = "string option"

subsection \<open>Session: AuthProvider and the root component App\<close>

datatype view = Public | Login | Admin

text \<open>
  \<open>storage\<close> is the \<open>adminToken\<close> key of local storage. \<open>token\<close> and \<open>ctx_isAuthenticated\<close>
  are the two state cells of \<open>AuthProvider\<close>; \<open>view\<close> and \<open>isAuthenticated\<close> are the two
  state cells of \<open>App\<close>.
\<close>

record session =
  storage :: stored_token
  token :: stored_token
  ctx_isAuthenticated :: bool
  view :: view
  isAuthenticated :: bool

text \<open>\<open>!!v\<close> for a value that is \<open>null\<close> or a string: the empty string is falsy.\<close>

definition truthy :: "stored_token \<Rightarrow> bool" where
  "truthy v = (case v of None \<Rightarrow> False | Some s \<Rightarrow> s \<noteq> [])"

text \<open>The initial values of the four state cells, for a given content of local storage.\<close>

definition mount :: "stored_token \<Rightarrow> session" where
  "mount st =
     \<lparr>storage = st, token = st, ctx_isAuthenticated = truthy st,
      view = Public, isAuthenticated = truthy st\<rparr>"

definition login :: "string \<Rightarrow> session \<Rightarrow> session" where
  "login newToken w =
     w\<lparr>storage := Some newToken, token := Some newToken, ctx_isAuthenticated := True\<rparr>"

definition logout :: "session \<Rightarrow> session" where
  "logout w = w\<lparr>storage := None, token := None, ctx_isAuthenticated := False\<rparr>"

definition handleAdminClick :: "session \<Rightarrow> session" where
  "handleAdminClick w = w\<lparr>view := Login\<rparr>"

definition handleLogin :: "string \<Rightarrow> session \<Rightarrow> session" where
  "handleLogin t w = w\<lparr>storage := Some t, isAuthenticated := True, view := Admin\<rparr>"

definition handleLogout :: "session \<Rightarrow> session" where
  "handleLogout w = w\<lparr>storage := None, isAuthenticated := False, view := Public\<rparr>"

text \<open>
  What \<open>App\<close> renders: three conditional children, in the order of the JSX.
\<close>

datatype screen = PublicHome | AdminLogin | AdminDashboard

definition App_render :: "session \<Rightarrow> screen list" where
  "App_render w =
     (if view w = Public then [PublicHome] else []) @
     (if view w = Login then [AdminLogin] else []) @
     (if view w = Admin \<and> isAuthenticated w then [AdminDashboard] else [])"

text \<open>
  The logout button of \<open>AdminDashboard\<close>: the component takes no props, so the
  \<open>onLogout={handleLogout}\<close> that \<open>App\<close> passes is not read; the button's handler is the
  \<open>logout\<close> of \<open>useAuth()\<close>.
\<close>

definition AdminDashboard_logout_click :: "session \<Rightarrow> session" where
  "AdminDashboard_logout_click w = logout w"

text \<open>
  The events of the session as the components wire them: the header button of the public
  page calls \<open>handleAdminClick\<close>, a login that the backend accepts calls \<open>onLogin\<close>, which is
  \<open>handleLogin\<close>, and the logout button of the dashboard calls \<open>logout\<close>. An event can only
  come from a component that is on screen.
\<close>

datatype event = AdminClick | LoginAccepted string | LogoutClick

fun fire :: "event \<Rightarrow> session \<Rightarrow> session" where
  "fire AdminClick w = (if PublicHome \<in> set (App_render w) then handleAdminClick w else w)"
| "fire (LoginAccepted t) w = (if AdminLogin \<in> set (App_render w) then handleLogin t w else w)"
| "fire LogoutClick w =
     (if AdminDashboard \<in> set (App_render w) then AdminDashboard_logout_click w else w)"

inductive reachable :: "session \<Rightarrow> bool" where
  start: "reachable (mount st)"
| step: "reachable w \<Longrightarrow> reachable (fire e w)"

subsection \<open>Entities held by the frontend\<close>

text \<open>
  The entity shapes as the components read them. The identifiers are assigned by the
  backend and only compared and interpolated into URLs, so they are strings here.
\<close>

record member =
  m_id :: string
  m_nom :: string
  m_prenom :: string
  m_age :: int
  m_branch :: string

record activity =
  a_id :: string
  a_titre :: string
  a_description :: string
  a_date_activite :: string
  a_branch :: "string option"
  a_organ :: "string option"
  a_lieu :: "string option"

record branch =
  b_type :: string
  b_name :: string
  b_age_range :: string
  b_description :: string

record organ =
  o_type :: string
  o_name :: string
  o_description :: string

record project =
  titre :: string
  contenu :: string

text \<open>The body of the answer to \<open>GET /branches\<close>.\<close>

record branches_payload =
  branches :: "branch list"
  organs :: "organ list"

text \<open>The body of the answer to \<open>GET /admin/stats\<close>: \<open>members_by_branch\<close>.\<close>

record stats =
  st_meute :: nat
  st_troupe :: nat
  st_compagnie :: nat
  st_clan :: nat

record credentials =
  username :: string
  password :: string

text \<open>The form of \<open>MembersManagement\<close>: every field is the string of its input widget.\<close>

record member_form =
  f_nom :: string
  f_prenom :: string
  f_age :: string
  f_branch :: string

text \<open>
  \<open>memberData\<close>, the body of a member request: the form with \<open>age\<close> replaced by
  \<open>parseInt(formData.age)\<close>, where \<open>None\<close> is \<open>NaN\<close>.
\<close>

record member_data =
  d_nom :: string
  d_prenom :: string
  d_age :: "int option"
  d_branch :: string

record activity_form =
  g_titre :: string
  g_description :: string
  g_date_activite :: string
  g_branch :: string
  g_organ :: string
  g_lieu :: string

text \<open>
  \<open>activityData\<close>, the body of an activity request: the date as an ISO timestamp, and
  \<open>branch\<close> and \<open>organ\<close> as \<open>null\<close> (here \<open>None\<close>) when the form field is empty.
\<close>

record activity_data =
  h_titre :: string
  h_description :: string
  h_date_activite :: string
  h_branch :: "string option"
  h_organ :: "string option"
  h_lieu :: string


text \<open>
  The requests the components send. The last argument of an admin request is the value of
  its \<open>Authorization\<close> header.
\<close>

datatype request =
    GetBranches
  | GetMembers
  | GetMembersOf string
  | GetActivities
  | GetActivitiesOf string
  | GetProject
  | PostLogin credentials
  | GetStats string
  | PostMember member_data string
  | PutMember string member_data string
  | DeleteMember string string
  | PostActivity activity_data string
  | PutActivity string activity_data string
  | DeleteActivity string string
  | PutProject project string

datatype effect =
    Http request
  | ConsoleError string
  | Alert string
  | Confirm string

text \<open>\<open>`Bearer ${localStorage.getItem('adminToken')}`\<close>: a \<open>null\<close> is interpolated as \<open>null\<close>.\<close>

definition bearer :: "stored_token \<Rightarrow> string" where
  "bearer t = ''Bearer '' @ (case t of None \<Rightarrow> ''null'' | Some s \<Rightarrow> s)"

text \<open>The requests of a trace, in order, and what a trace shows to the user in a dialog.\<close>

fun requests :: "effect list \<Rightarrow> request list" where
  "requests [] = []"
| "requests (Http r # es) = r # requests es"
| "requests (e # es) = requests es"


text \<open>Running a handler once for each of a sequence of clicks, the traces concatenated.\<close>

fun clicks :: "('r \<Rightarrow> 's \<Rightarrow> 's \<times> effect list) \<Rightarrow> 'r list \<Rightarrow> 's \<Rightarrow> 's \<times> effect list" where
  "clicks h [] s = (s, [])"
| "clicks h (r # rs) s =
     (case h r s of (s1, tr1) \<Rightarrow> (case clicks h rs s1 of (s2, tr2) \<Rightarrow> (s2, tr1 @ tr2)))"

subsection \<open>The messages of the source\<close>

definition e_acute :: string where "e_acute = [CHR 0xC3, CHR 0xA9]"
definition e_grave :: string where "e_grave = [CHR 0xC3, CHR 0xA8]"
definition a_grave :: string where "a_grave = [CHR 0xC3, CHR 0xA0]"
definition u_circ :: string where "u_circ = [CHR 0xC3, CHR 0xBB]"
definition E_circ :: string where "E_circ = [CHR 0xC3, CHR 0x8A]"

definition err_load_members :: string where
  "err_load_members = ''Erreur lors du chargement des membres:''"

definition err_load_activities :: string where
  "err_load_activities = ''Erreur lors du chargement des activit'' @ e_acute @ ''s:''"

definition err_load_data :: string where
  "err_load_data = ''Erreur lors du chargement des donn'' @ e_acute @ ''es:''"

definition no_recent_activity :: string where
  "no_recent_activity = ''Aucune activit'' @ e_acute @ '' r'' @ e_acute @ ''cente''"

definition login_error :: string where
  "login_error = ''Nom d'utilisateur ou mot de passe incorrect''"

definition err_generic :: string where
  "err_generic = ''Erreur:''"

definition confirm_delete_member :: string where
  "confirm_delete_member =
     E_circ @ ''tes-vous s'' @ u_circ @ ''r de vouloir supprimer ce membre ?''"

definition confirm_delete_activity :: string where
  "confirm_delete_activity =
     E_circ @ ''tes-vous s'' @ u_circ @ ''r de vouloir supprimer cette activit'' @ e_acute @ '' ?''"

definition project_updated :: string where
  "project_updated =
     ''Projet p'' @ e_acute @ ''dagogique mis '' @ a_grave @ '' jour avec succ'' @ e_grave @ ''s !''"

definition project_update_failed :: string where
  "project_update_failed = ''Erreur lors de la mise '' @ a_grave @ '' jour''"

subsection \<open>BranchCard\<close>

record branch_card =
  showMembers :: bool
  showActivities :: bool
  bc_members :: "member list"
  branchActivities :: "activity list"

definition BranchCard_initial :: branch_card where
  "BranchCard_initial =
     \<lparr>showMembers = False, showActivities = False, bc_members = [], branchActivities = []\<rparr>"

text \<open>
  \<open>loadMembers\<close> and \<open>loadActivities\<close> are the \<open>onClick\<close> handlers of the two buttons of
  the card. Neither reads the state: each sends its request and, when the request succeeds,
  stores the list and sets the visibility flag to \<open>true\<close>.
\<close>

definition BranchCard_loadMembers ::
  "branch \<Rightarrow> member list response \<Rightarrow> branch_card \<Rightarrow> branch_card \<times> effect list" where
  "BranchCard_loadMembers b r s =
     (case r of
        Inr data \<Rightarrow> (s\<lparr>bc_members := data, showMembers := True\<rparr>, [Http (GetMembersOf (b_type b))])
      | Inl e \<Rightarrow> (s, [Http (GetMembersOf (b_type b)), ConsoleError err_load_members]))"

definition BranchCard_loadActivities ::
  "branch \<Rightarrow> activity list response \<Rightarrow> branch_card \<Rightarrow> branch_card \<times> effect list" where
  "BranchCard_loadActivities b r s =
     (case r of
        Inr data \<Rightarrow>
          (s\<lparr>branchActivities := data, showActivities := True\<rparr>, [Http (GetActivitiesOf (b_type b))])
      | Inl e \<Rightarrow> (s, [Http (GetActivitiesOf (b_type b)), ConsoleError err_load_activities]))"

text \<open>The labels of the two buttons, and the lists the card shows below them.\<close>

definition BranchCard_members_label :: "branch_card \<Rightarrow> string" where
  "BranchCard_members_label s = (if showMembers s then ''Masquer les membres'' else ''Voir les membres'')"

definition BranchCard_activities_label :: "branch_card \<Rightarrow> string" where
  "BranchCard_activities_label s =
     (if showActivities s then ''Masquer les activit'' @ e_acute @ ''s''
      else ''Voir les activit'' @ e_acute @ ''s'')"

definition BranchCard_members_shown :: "branch_card \<Rightarrow> member list option" where
  "BranchCard_members_shown s = (if showMembers s then Some (bc_members s) else None)"

definition BranchCard_activities_shown :: "branch_card \<Rightarrow> activity list option" where
  "BranchCard_activities_shown s = (if showActivities s then Some (branchActivities s) else None)"

subsection \<open>PublicHome\<close>

text \<open>
  \<open>memberCounts\<close> is a plain object: \<open>{}\<close> at first, then the literal with the four branch
  keys. It is the list of its own properties here. Reading a property that the object does
  not own gives \<open>undefined\<close>, except for the names it inherits from \<open>Object.prototype\<close>.
\<close>

record public_home =
  ph_branches :: "branch list"
  ph_organs :: "organ list"
  memberCounts :: "(string \<times> nat) list"
  ph_project :: "project option"
  recentActivities :: "activity list"

definition PublicHome_initial :: public_home where
  "PublicHome_initial =
     \<lparr>ph_branches = [], ph_organs = [], memberCounts = [], ph_project = None,
      recentActivities = []\<rparr>"

datatype jsval = Undefined | Number nat | Inherited

definition Object_prototype_keys :: "string list" where
  "Object_prototype_keys =
     [''constructor'', ''hasOwnProperty'', ''isPrototypeOf'', ''propertyIsEnumerable'',
      ''toLocaleString'', ''toString'', ''valueOf'', ''__proto__'', ''__defineGetter__'',
      ''__defineSetter__'', ''__lookupGetter__'', ''__lookupSetter__'']"

definition get_prop :: "(string \<times> nat) list \<Rightarrow> string \<Rightarrow> jsval" where
  "get_prop obj k =
     (case map_of obj k of
        Some n \<Rightarrow> Number n
      | None \<Rightarrow> if k \<in> set Object_prototype_keys then Inherited else Undefined)"

text \<open>\<open>v || 0\<close>: \<open>undefined\<close> and \<open>0\<close> are falsy, every other value here is truthy.\<close>

definition or_zero :: "jsval \<Rightarrow> jsval" where
  "or_zero v =
     (case v of
        Undefined \<Rightarrow> Number 0
      | Number n \<Rightarrow> if n = 0 then Number 0 else Number n
      | Inherited \<Rightarrow> Inherited)"

text \<open>
  \<open>loadData\<close> awaits its four requests one after the other inside one \<open>try\<close>: the first
  request that fails ends the function in the \<open>catch\<close>, after the state updates made so far.
\<close>

definition loadData ::
  "branches_payload response \<Rightarrow> member list response \<Rightarrow> project response \<Rightarrow>
   activity list response \<Rightarrow> public_home \<Rightarrow> public_home \<times> effect list" where
  "loadData branchesResponse membersResponse projectResponse activitiesResponse s =
     (case branchesResponse of
        Inl e \<Rightarrow> (s, [Http GetBranches, ConsoleError err_load_data])
      | Inr bp \<Rightarrow>
         (let s1 = s\<lparr>ph_branches := branches bp, ph_organs := organs bp\<rparr> in
          case membersResponse of
            Inl e \<Rightarrow> (s1, [Http GetBranches, Http GetMembers, ConsoleError err_load_data])
          | Inr members \<Rightarrow>
             (let counts =
                    [(''meute'', length (filter (\<lambda>m. m_branch m = ''meute'') members)),
                     (''troupe'', length (filter (\<lambda>m. m_branch m = ''troupe'') members)),
                     (''compagnie'', length (filter (\<lambda>m. m_branch m = ''compagnie'') members)),
                     (''clan'', length (filter (\<lambda>m. m_branch m = ''clan'') members))];
                  s2 = s1\<lparr>memberCounts := counts\<rparr>
              in case projectResponse of
                   Inl e \<Rightarrow>
                     (s2, [Http GetBranches, Http GetMembers, Http GetProject,
                           ConsoleError err_load_data])
                 | Inr p \<Rightarrow>
                    (let s3 = s2\<lparr>ph_project := Some p\<rparr> in
                     case activitiesResponse of
                       Inl e \<Rightarrow>
                         (s3, [Http GetBranches, Http GetMembers, Http GetProject,
                               Http GetActivities, ConsoleError err_load_data])
                     | Inr acts \<Rightarrow>
                         (s3\<lparr>recentActivities := take 5 acts\<rparr>,
                          [Http GetBranches, Http GetMembers, Http GetProject,
                           Http GetActivities])))))"

text \<open>
  What the page shows. One \<open>BranchCard\<close> for each branch, with its \<open>memberCount\<close> prop
  \<open>memberCounts[branch.type] || 0\<close>. The recent activities are one element for each entry of
  \<open>recentActivities\<close>, in order (an element is identified with the activity it shows), or
  the placeholder text when the list is empty. The project, when there is one, is its title
  and one paragraph for each part of \<open>project.contenu.split('\n')\<close>.
\<close>

definition PublicHome_branch_cards :: "public_home \<Rightarrow> (branch \<times> jsval) list" where
  "PublicHome_branch_cards s =
     map (\<lambda>b. (b, or_zero (get_prop (memberCounts s) (b_type b)))) (ph_branches s)"

datatype 'a listing = Placeholder string | Items "'a list"

definition PublicHome_recent :: "public_home \<Rightarrow> activity listing" where
  "PublicHome_recent s =
     (if length (recentActivities s) > 0 then Items (recentActivities s)
      else Placeholder no_recent_activity)"

text \<open>\<open>String.prototype.split\<close> with a separator of one character: empty parts are kept.\<close>

fun split_on :: "'a \<Rightarrow> 'a list \<Rightarrow> 'a list list" where
  "split_on c [] = [[]]"
| "split_on c (x # xs) =
     (if x = c then [] # split_on c xs
      else (case split_on c xs of [] \<Rightarrow> [[x]] | p # ps \<Rightarrow> (x # p) # ps))"

definition newline :: char where
  "newline = CHR 0x0A"

definition PublicHome_project :: "public_home \<Rightarrow> (string \<times> string list) option" where
  "PublicHome_project s =
     (case ph_project s of
        None \<Rightarrow> None
      | Some p \<Rightarrow> Some (titre p, split_on newline (contenu p)))"

text \<open>\<open>Array.prototype.join\<close> with a separator of one character, to state what the parts are.\<close>

fun join :: "'a \<Rightarrow> 'a list list \<Rightarrow> 'a list" where
  "join c [] = []"
| "join c [p] = p"
| "join c (p # q # ps) = p @ c # join c (q # ps)"

subsection \<open>AdminLogin\<close>

record admin_login =
  al_credentials :: credentials
  al_loading :: bool
  al_error :: string

definition AdminLogin_initial :: admin_login where
  "AdminLogin_initial =
     \<lparr>al_credentials = \<lparr>username = [], password = []\<rparr>, al_loading = False, al_error = []\<rparr>"

text \<open>The state while the request is awaited: \<open>setLoading(true); setError('')\<close>.\<close>

definition AdminLogin_submitting :: "admin_login \<Rightarrow> admin_login" where
  "AdminLogin_submitting l = l\<lparr>al_loading := True, al_error := []\<rparr>"

text \<open>
  \<open>handleLogin\<close> of \<open>AdminLogin\<close>, from the submit to the end of its \<open>finally\<close> block. The
  response carries \<open>response.data.access_token\<close>; \<open>onLogin\<close> is \<open>handleLogin\<close> of \<open>App\<close>.
\<close>

definition AdminLogin_handleLogin ::
  "string response \<Rightarrow> admin_login \<times> session \<Rightarrow> (admin_login \<times> session) \<times> effect list" where
  "AdminLogin_handleLogin r lw =
     (case lw of (l, w) \<Rightarrow>
        (let l1 = AdminLogin_submitting l in
         case r of
           Inr access_token \<Rightarrow>
             ((l1\<lparr>al_loading := False\<rparr>, handleLogin access_token w),
              [Http (PostLogin (al_credentials l))])
         | Inl e \<Rightarrow>
             ((l1\<lparr>al_error := login_error, al_loading := False\<rparr>, w),
              [Http (PostLogin (al_credentials l))])))"

text \<open>The error box is rendered under \<open>error &&\<close>, the submit button has \<open>disabled={loading}\<close>.\<close>

definition AdminLogin_error_shown :: "admin_login \<Rightarrow> string option" where
  "AdminLogin_error_shown l = (if al_error l \<noteq> [] then Some (al_error l) else None)"

definition AdminLogin_submit_disabled :: "admin_login \<Rightarrow> bool" where
  "AdminLogin_submit_disabled l = al_loading l"

subsection \<open>AdminDashboard\<close>

datatype tab = Dashboard | Members | Activities | Project

record admin_dashboard =
  activeTab :: tab
  ad_stats :: "stats option"
  ad_members :: "member list"
  ad_activities :: "activity list"
  ad_project :: project

definition AdminDashboard_initial :: admin_dashboard where
  "AdminDashboard_initial =
     \<lparr>activeTab = Dashboard, ad_stats = None, ad_members = [], ad_activities = [],
      ad_project = \<lparr>titre = [], contenu = []\<rparr>\<rparr>"




definition AdminDashboard_loadProject ::
  "project response \<Rightarrow> admin_dashboard \<Rightarrow> admin_dashboard \<times> effect list" where
  "AdminDashboard_loadProject r d =
     (case r of
        Inr data \<Rightarrow> (d\<lparr>ad_project := data\<rparr>, [Http GetProject])
      | Inl e \<Rightarrow> (d, [Http GetProject, ConsoleError ''Erreur projet:'']))"

text \<open>
  \<open>loadProject\<close> is an \<open>async\<close> function: a caller that does not await it goes on as soon
  as the function reaches its own \<open>await\<close>, and the rest of the function runs when the
  request is answered. The two parts of \<open>loadProject\<close>: what it does up to its \<open>await\<close>,
  and what it does with the answer.
\<close>

definition AdminDashboard_loadProject_started :: "effect list" where
  "AdminDashboard_loadProject_started = [Http GetProject]"

definition AdminDashboard_loadProject_settled ::
  "project response \<Rightarrow> admin_dashboard \<Rightarrow> admin_dashboard \<times> effect list" where
  "AdminDashboard_loadProject_settled r d =
     (case r of
        Inr data \<Rightarrow> (d\<lparr>ad_project := data\<rparr>, [])
      | Inl e \<Rightarrow> (d, [ConsoleError ''Erreur projet:'']))"

subsection \<open>The management views\<close>

text \<open>
  A management view gets its entity list and the callback \<open>onUpdate\<close> as props; the list
  itself is state of its parent. The callback is a parameter of the handlers here: a
  function on the parent's state \<open>'p\<close> that returns the new state and the trace of the call.
  In \<open>AdminDashboard\<close> it is \<open>loadMembers\<close>, \<open>loadActivities\<close> or \<open>loadProject\<close>. The
  handlers of the member and activity views call it as their last statement, so its
  effects end their trace. \<open>tok\<close> is the content of local storage when the handler builds
  the \<open>Authorization\<close> header.
\<close>

record members_mgmt =
  mm_showForm :: bool
  mm_editingMember :: "member option"
  mm_formData :: member_form

definition empty_member_form :: member_form where
  "empty_member_form = \<lparr>f_nom = [], f_prenom = [], f_age = [], f_branch = ''meute''\<rparr>"

definition MembersManagement_initial :: members_mgmt where
  "MembersManagement_initial =
     \<lparr>mm_showForm = False, mm_editingMember = None, mm_formData = empty_member_form\<rparr>"


definition MembersManagement_handleDelete ::
  "stored_token \<Rightarrow> bool \<Rightarrow> unit response \<Rightarrow> ('p \<Rightarrow> 'p \<times> effect list) \<Rightarrow> string \<Rightarrow>
   members_mgmt \<times> 'p \<Rightarrow> (members_mgmt \<times> 'p) \<times> effect list" where
  "MembersManagement_handleDelete tok confirmed r onUpdate memberId sp =
     (case sp of (s, p) \<Rightarrow>
        if confirmed then
          (case r of
             Inr u \<Rightarrow>
               (case onUpdate p of (p1, tr) \<Rightarrow>
                  ((s, p1),
                   Confirm confirm_delete_member # Http (DeleteMember memberId (bearer tok)) # tr))
           | Inl e \<Rightarrow>
               ((s, p),
                [Confirm confirm_delete_member, Http (DeleteMember memberId (bearer tok)),
                 ConsoleError err_generic]))
        else ((s, p), [Confirm confirm_delete_member]))"

record activities_mgmt =
  am_showForm :: bool
  am_editingActivity :: "activity option"
  am_formData :: activity_form

definition empty_activity_form :: activity_form where
  "empty_activity_form =
     \<lparr>g_titre = [], g_description = [], g_date_activite = [], g_branch = [], g_organ = [],
      g_lieu = []\<rparr>"

definition ActivitiesManagement_initial :: activities_mgmt where
  "ActivitiesManagement_initial =
     \<lparr>am_showForm = False, am_editingActivity = None, am_formData = empty_activity_form\<rparr>"



definition ActivitiesManagement_handleDelete ::
  "stored_token \<Rightarrow> bool \<Rightarrow> unit response \<Rightarrow> ('p \<Rightarrow> 'p \<times> effect list) \<Rightarrow> string \<Rightarrow>
   activities_mgmt \<times> 'p \<Rightarrow> (activities_mgmt \<times> 'p) \<times> effect list" where
  "ActivitiesManagement_handleDelete tok confirmed r onUpdate activityId sp =
     (case sp of (s, p) \<Rightarrow>
        if confirmed then
          (case r of
             Inr u \<Rightarrow>
               (case onUpdate p of (p1, tr) \<Rightarrow>
                  ((s, p1),
                   Confirm confirm_delete_activity #
                   Http (DeleteActivity activityId (bearer tok)) # tr))
           | Inl e \<Rightarrow>
               ((s, p),
                [Confirm confirm_delete_activity, Http (DeleteActivity activityId (bearer tok)),
                 ConsoleError err_generic]))
        else ((s, p), [Confirm confirm_delete_activity]))"

record project_mgmt =
  pm_formData :: project
  pm_loading :: bool


text \<open>The effect hook on \<open>[project]\<close>: the form follows the \<open>project\<close> prop.\<close>

definition ProjectManagement_sync :: "project \<Rightarrow> project_mgmt \<Rightarrow> project_mgmt" where
  "ProjectManagement_sync proj s = s\<lparr>pm_formData := \<lparr>titre = titre proj, contenu = contenu proj\<rparr>\<rparr>"

text \<open>
  \<open>handleSubmit\<close> of \<open>ProjectManagement\<close>, from the submit to the end of its \<open>finally\<close>
  block: the body of the request is \<open>formData\<close> as it is. After the request the handler
  calls \<open>onUpdate()\<close> without awaiting it and then shows the alert, so the callback is given
  in its two parts: \<open>fst onUpdate\<close> is what the callback does up to its \<open>await\<close>, before the
  alert, and \<open>snd onUpdate\<close> is what it does to the parent's state once its request is
  answered, after the alert.
\<close>

definition ProjectManagement_handleSubmit ::
  "stored_token \<Rightarrow> unit response \<Rightarrow> effect list \<times> ('p \<Rightarrow> 'p \<times> effect list) \<Rightarrow>
   project_mgmt \<times> 'p \<Rightarrow> (project_mgmt \<times> 'p) \<times> effect list" where
  "ProjectManagement_handleSubmit tok r onUpdate sp =
     (case sp of (s, p) \<Rightarrow>
        (let s1 = s\<lparr>pm_loading := True\<rparr>;
             req = PutProject (pm_formData s) (bearer tok)
         in case r of
              Inr u \<Rightarrow>
                (case snd onUpdate p of (p1, tr) \<Rightarrow>
                   ((s1\<lparr>pm_loading := False\<rparr>, p1),
                    Http req # fst onUpdate @ [Alert project_updated] @ tr))
            | Inl e \<Rightarrow>
                ((s1\<lparr>pm_loading := False\<rparr>, p),
                 [Http req, ConsoleError err_generic, Alert project_update_failed])))"

section \<open>Properties of the session\<close>

lemma reachable_fold: "reachable (foldl (\<lambda>w e. fire e w) (mount st) es)"
proof (induction es rule: rev_induct)
  case Nil
  show ?case by (simp add: reachable.start)
next
  case (snoc e es)
  then show ?case by (simp add: reachable.step)
qed

text \<open>The root component never selects the admin view without its own flag set.\<close>

lemma admin_view_is_authenticated: "reachable w \<Longrightarrow> view w = Admin \<Longrightarrow> isAuthenticated w"
proof (induction rule: reachable.induct)
  case (start st)
  then show ?case by (simp add: mount_def)
next
  case (step w e)
  then show ?case
    by (cases e)
      (auto simp: App_render_def handleAdminClick_def handleLogin_def
        AdminDashboard_logout_click_def logout_def split: if_splits)
qed

text \<open>
  Claim C10. In every reachable state of the root component the admin dashboard is on screen
  only when the view selector is \<open>Admin\<close> and the root authenticated flag is true; with the
  flag false it is never on screen.
\<close>

theorem dashboard_only_when_admin_and_authenticated:
  "reachable w \<Longrightarrow>
     (AdminDashboard \<in> set (App_render w) \<longleftrightarrow> view w = Admin \<and> isAuthenticated w) \<and>
     (\<not> isAuthenticated w \<longrightarrow> AdminDashboard \<notin> set (App_render w))"
  by (simp add: App_render_def)

theorem dashboard_only_when_admin_and_authenticated_witness:
  "reachable (fire (LoginAccepted ''t'') (fire AdminClick (mount None))) \<and>
   AdminDashboard \<in> set (App_render (fire (LoginAccepted ''t'') (fire AdminClick (mount None)))) \<and>
   reachable (fire AdminClick (mount None)) \<and>
   AdminDashboard \<notin> set (App_render (fire AdminClick (mount None)))"
proof -
  have r1: "reachable (fire AdminClick (mount None))"
    by (rule reachable.step) (rule reachable.start)
  have r2: "reachable (fire (LoginAccepted ''t'') (fire AdminClick (mount None)))"
    by (rule reachable.step) (rule r1)
  have v2: "view (fire (LoginAccepted ''t'') (fire AdminClick (mount None))) = Admin
      \<and> isAuthenticated (fire (LoginAccepted ''t'') (fire AdminClick (mount None)))"
    by (simp add: mount_def truthy_def App_render_def handleAdminClick_def handleLogin_def)
  have v1: "\<not> isAuthenticated (fire AdminClick (mount None))"
    by (simp add: mount_def truthy_def App_render_def handleAdminClick_def)
  from dashboard_only_when_admin_and_authenticated [OF r2] v2
    dashboard_only_when_admin_and_authenticated [OF r1] v1 r1 r2
  show ?thesis by blast
qed

text \<open>
  Claim C1 says that the persisted token and the authenticated flag are updated together on
  every login and logout path, in \<open>AuthProvider\<close> and in \<open>App\<close> alike. The code has two
  writers for each direction and none of them updates both components. Starting with empty
  storage, the login that the login view performs (\<open>handleLogin\<close> of \<open>App\<close>) stores the token
  and sets the flag of \<open>App\<close>, and leaves \<open>AuthProvider\<close> with no token and its flag false;
  the logout that the dashboard performs (\<open>logout\<close> of \<open>AuthProvider\<close>) then empties the
  storage and leaves the flag of \<open>App\<close> true. The sibling \<open>login\<close> of \<open>AuthProvider\<close>, which
  no component calls, sets the token and the flag of \<open>AuthProvider\<close> and leaves the flag of
  \<open>App\<close> false.
\<close>

theorem login_and_logout_leave_the_two_flags_apart:
  "storage (fire (LoginAccepted ''t'') (fire AdminClick (mount None))) = Some ''t'' \<and>
   isAuthenticated (fire (LoginAccepted ''t'') (fire AdminClick (mount None))) \<and>
   token (fire (LoginAccepted ''t'') (fire AdminClick (mount None))) = None \<and>
   \<not> ctx_isAuthenticated (fire (LoginAccepted ''t'') (fire AdminClick (mount None))) \<and>
   storage (fire LogoutClick (fire (LoginAccepted ''t'') (fire AdminClick (mount None)))) = None \<and>
   isAuthenticated (fire LogoutClick (fire (LoginAccepted ''t'') (fire AdminClick (mount None)))) \<and>
   login ''t'' (mount None) =
     \<lparr>storage = Some ''t'', token = Some ''t'', ctx_isAuthenticated = True, view = Public,
      isAuthenticated = False\<rparr>"
  by (simp add: mount_def truthy_def App_render_def handleAdminClick_def handleLogin_def
      AdminDashboard_logout_click_def logout_def login_def)

text \<open>
  Claim C3 says that the logout of the admin dashboard clears the stored token, sets the
  authenticated flag to false and resets the view selector to the public view. The button
  runs \<open>logout\<close> of \<open>AuthProvider\<close>: after a login with token \<open>t\<close> it clears the storage and
  the state of \<open>AuthProvider\<close>, while the view selector stays \<open>Admin\<close>, the flag of \<open>App\<close>
  stays true and the dashboard stays on screen. \<open>handleLogout\<close> of \<open>App\<close>, which is passed
  to the dashboard as \<open>onLogout\<close> and never called, does reset both.
\<close>

theorem dashboard_logout_keeps_admin_view:
  "AdminDashboard_logout_click (handleLogin ''t'' (handleAdminClick (mount None))) =
     \<lparr>storage = None, token = None, ctx_isAuthenticated = False, view = Admin,
      isAuthenticated = True\<rparr> \<and>
   App_render (AdminDashboard_logout_click (handleLogin ''t'' (handleAdminClick (mount None))))
     = [AdminDashboard] \<and>
   handleLogout (handleLogin ''t'' (handleAdminClick (mount None))) =
     \<lparr>storage = None, token = None, ctx_isAuthenticated = False, view = Public,
      isAuthenticated = False\<rparr>"
  by (simp add: mount_def truthy_def App_render_def handleAdminClick_def handleLogin_def
      AdminDashboard_logout_click_def logout_def handleLogout_def)

section \<open>Properties of the branch card\<close>

text \<open>
  Claim C2 says that repeated clicks on the members button (and on the activities button)
  alternate the visibility of the list, and that only the first click sends a request. Both
  buttons run their load function on every click: two clicks on a fresh card, each answered
  with a list, send two requests and leave the list visible, under the label that offers to
  hide it.
\<close>

theorem every_click_fetches_and_none_hides:
  "clicks (BranchCard_loadMembers
      \<lparr>b_type = ''meute'', b_name = ''Meute'', b_age_range = ''8-11 ans'', b_description = []\<rparr>)
      [Inr [\<lparr>m_id = ''1'', m_nom = ''Dupont'', m_prenom = ''Jean'', m_age = 10,
             m_branch = ''meute''\<rparr>],
       Inr [\<lparr>m_id = ''1'', m_nom = ''Dupont'', m_prenom = ''Jean'', m_age = 10,
             m_branch = ''meute''\<rparr>]]
      BranchCard_initial =
     (\<lparr>showMembers = True, showActivities = False,
       bc_members = [\<lparr>m_id = ''1'', m_nom = ''Dupont'', m_prenom = ''Jean'', m_age = 10,
                      m_branch = ''meute''\<rparr>],
       branchActivities = []\<rparr>,
      [Http (GetMembersOf ''meute''), Http (GetMembersOf ''meute'')]) \<and>
   BranchCard_members_label
     \<lparr>showMembers = True, showActivities = False,
      bc_members = [\<lparr>m_id = ''1'', m_nom = ''Dupont'', m_prenom = ''Jean'', m_age = 10,
                     m_branch = ''meute''\<rparr>],
      branchActivities = []\<rparr> = ''Masquer les membres'' \<and>
   clicks (BranchCard_loadActivities
      \<lparr>b_type = ''meute'', b_name = ''Meute'', b_age_range = ''8-11 ans'', b_description = []\<rparr>)
      [Inr [], Inr []] BranchCard_initial =
     (\<lparr>showMembers = False, showActivities = True, bc_members = [], branchActivities = []\<rparr>,
      [Http (GetActivitiesOf ''meute''), Http (GetActivitiesOf ''meute'')])"
  by (simp add: BranchCard_loadMembers_def BranchCard_loadActivities_def BranchCard_initial_def
      BranchCard_members_label_def)

section \<open>Properties of the public page\<close>

text \<open>
  Claim C5. For every fetched member list and every branch key among \<open>meute\<close>, \<open>troupe\<close>,
  \<open>compagnie\<close> and \<open>clan\<close>, the member count that the public page shows for that branch is
  the number of members of the fetched list whose branch field equals the key: this is the
  value of \<open>memberCounts[key] || 0\<close> after \<open>loadData\<close>, and the \<open>memberCount\<close> of the card of
  every branch of that type.
\<close>

theorem member_count_per_branch:
  assumes "k \<in> {''meute'', ''troupe'', ''compagnie'', ''clan''}"
  shows "or_zero (get_prop (memberCounts (fst (loadData (Inr bp) (Inr ms) rp ra s))) k)
           = Number (length (filter (\<lambda>m. m_branch m = k) ms)) \<and>
         (\<forall>b \<in> set (branches bp). b_type b = k \<longrightarrow>
            (b, Number (length (filter (\<lambda>m. m_branch m = k) ms)))
              \<in> set (PublicHome_branch_cards (fst (loadData (Inr bp) (Inr ms) rp ra s))))"
proof -
  let ?s = "fst (loadData (Inr bp) (Inr ms) rp ra s)"
  let ?n = "length (filter (\<lambda>m. m_branch m = k) ms)"
  have counts: "memberCounts ?s =
      [(''meute'', length (filter (\<lambda>m. m_branch m = ''meute'') ms)),
       (''troupe'', length (filter (\<lambda>m. m_branch m = ''troupe'') ms)),
       (''compagnie'', length (filter (\<lambda>m. m_branch m = ''compagnie'') ms)),
       (''clan'', length (filter (\<lambda>m. m_branch m = ''clan'') ms))]"
    by (simp add: loadData_def Let_def split: sum.splits)
  have brs: "ph_branches ?s = branches bp"
    by (simp add: loadData_def Let_def split: sum.splits)
  have shown: "or_zero (get_prop (memberCounts ?s) k) = Number ?n"
    using assms unfolding counts by (auto simp: get_prop_def or_zero_def)
  have cards: "(b, Number ?n) \<in> set (PublicHome_branch_cards ?s)"
    if "b \<in> set (branches bp)" "b_type b = k" for b
  proof -
    have "(b, or_zero (get_prop (memberCounts ?s) (b_type b))) \<in> set (PublicHome_branch_cards ?s)"
      unfolding PublicHome_branch_cards_def brs using that(1) by (simp add: image_iff)
    then show ?thesis using that(2) shown by simp
  qed
  from shown cards show ?thesis by blast
qed

theorem member_count_per_branch_witness:
  "''troupe'' \<in> {''meute'', ''troupe'', ''compagnie'', ''clan''} \<and>
   or_zero (get_prop (memberCounts (fst (loadData
      (Inr \<lparr>branches = [\<lparr>b_type = ''troupe'', b_name = ''Troupe'', b_age_range = ''12-14 ans'',
                          b_description = []\<rparr>], organs = []\<rparr>)
      (Inr [\<lparr>m_id = ''1'', m_nom = ''Dupont'', m_prenom = ''Jean'', m_age = 10,
             m_branch = ''meute''\<rparr>,
            \<lparr>m_id = ''2'', m_nom = ''Martin'', m_prenom = ''Lea'', m_age = 12,
             m_branch = ''troupe''\<rparr>,
            \<lparr>m_id = ''3'', m_nom = ''Petit'', m_prenom = ''Hugo'', m_age = 13,
             m_branch = ''troupe''\<rparr>])
      (Inl NetworkError) (Inl NetworkError) PublicHome_initial))) ''troupe'')
   = Number 2"
proof -
  have k: "''troupe'' \<in> {''meute'', ''troupe'', ''compagnie'', ''clan''}"
    by simp
  have n: "length (filter (\<lambda>m. m_branch m = ''troupe'')
         [\<lparr>m_id = ''1'', m_nom = ''Dupont'', m_prenom = ''Jean'', m_age = 10,
             m_branch = ''meute''\<rparr>,
            \<lparr>m_id = ''2'', m_nom = ''Martin'', m_prenom = ''Lea'', m_age = 12,
             m_branch = ''troupe''\<rparr>,
            \<lparr>m_id = ''3'', m_nom = ''Petit'', m_prenom = ''Hugo'', m_age = 13,
             m_branch = ''troupe''\<rparr>]) = 2"
    by simp
  have "or_zero (get_prop (memberCounts (fst (loadData
      (Inr \<lparr>branches = [\<lparr>b_type = ''troupe'', b_name = ''Troupe'', b_age_range = ''12-14 ans'',
                          b_description = []\<rparr>], organs = []\<rparr>)
      (Inr [\<lparr>m_id = ''1'', m_nom = ''Dupont'', m_prenom = ''Jean'', m_age = 10,
             m_branch = ''meute''\<rparr>,
            \<lparr>m_id = ''2'', m_nom = ''Martin'', m_prenom = ''Lea'', m_age = 12,
             m_branch = ''troupe''\<rparr>,
            \<lparr>m_id = ''3'', m_nom = ''Petit'', m_prenom = ''Hugo'', m_age = 13,
             m_branch = ''troupe''\<rparr>])
      (Inl NetworkError) (Inl NetworkError) PublicHome_initial))) ''troupe'')
   = Number 2"
    by (rule trans [OF conjunct1 [OF member_count_per_branch [OF k]]]) (simp only: n)
  with k show ?thesis by (rule conjI)
qed


text \<open>
  Claim C9. For every activity list that the backend returns, the recent-activities section
  of the public page shows the first five entries of the list in the order of the list
  (all of them when the list is shorter), without sorting; an empty list shows the
  placeholder text.
\<close>

theorem recent_activities_first_five:
  "recentActivities (fst (loadData (Inr bp) (Inr ms) (Inr pr) (Inr acts) s)) = take 5 acts \<and>
   (acts \<noteq> [] \<longrightarrow>
      PublicHome_recent (fst (loadData (Inr bp) (Inr ms) (Inr pr) (Inr acts) s))
        = Items (take 5 acts)) \<and>
   (acts = [] \<longrightarrow>
      PublicHome_recent (fst (loadData (Inr bp) (Inr ms) (Inr pr) (Inr acts) s))
        = Placeholder no_recent_activity)"
  by (simp add: loadData_def PublicHome_recent_def)

theorem recent_activities_first_five_witness:
  "PublicHome_recent (fst (loadData (Inr \<lparr>branches = [], organs = []\<rparr>) (Inr [])
      (Inr \<lparr>titre = ''X'', contenu = ''A''\<rparr>)
      (Inr (map (\<lambda>i. \<lparr>a_id = i, a_titre = ''Camp'', a_description = [],
                       a_date_activite = ''2024-07-01'', a_branch = None, a_organ = None,
                       a_lieu = None\<rparr>) [''6'', ''5'', ''4'', ''3'', ''2'', ''1'']))
      PublicHome_initial))
   = Items (map (\<lambda>i. \<lparr>a_id = i, a_titre = ''Camp'', a_description = [],
                       a_date_activite = ''2024-07-01'', a_branch = None, a_organ = None,
                       a_lieu = None\<rparr>) [''6'', ''5'', ''4'', ''3'', ''2''])"
  using recent_activities_first_five
    [of "\<lparr>branches = [], organs = []\<rparr>" "[]" "\<lparr>titre = ''X'', contenu = ''A''\<rparr>"
      "map (\<lambda>i. \<lparr>a_id = i, a_titre = ''Camp'', a_description = [],
                  a_date_activite = ''2024-07-01'', a_branch = None, a_organ = None,
                  a_lieu = None\<rparr>) [''6'', ''5'', ''4'', ''3'', ''2'', ''1'']"
      PublicHome_initial]
  by simp

subsection \<open>Splitting the project text\<close>

lemma split_on_not_Nil: "split_on c xs \<noteq> []"
  by (induction xs) (auto split: list.splits)

lemma join_split_on: "join c (split_on c xs) = xs"
proof (induction xs)
  case Nil
  show ?case by simp
next
  case (Cons x xs)
  obtain p ps where sp: "split_on c xs = p # ps"
    using split_on_not_Nil [of c xs] by (cases "split_on c xs") auto
  show ?case
  proof (cases "x = c")
    case True
    with Cons sp show ?thesis by simp
  next
    case False
    with Cons sp show ?thesis by (cases ps) auto
  qed
qed

lemma split_on_parts_free: "p \<in> set (split_on c xs) \<Longrightarrow> c \<notin> set p"
  by (induction xs arbitrary: p) (auto split: if_splits list.splits)

lemma length_split_on: "length (split_on c xs) = Suc (count_list xs c)"
  by (induction xs) (auto split: list.splits simp: split_on_not_Nil)

lemma loadProject_in_two_parts:
  "AdminDashboard_loadProject r d =
     (fst (AdminDashboard_loadProject_settled r d),
      AdminDashboard_loadProject_started @ snd (AdminDashboard_loadProject_settled r d))"
  by (cases r)
    (simp_all add: AdminDashboard_loadProject_def AdminDashboard_loadProject_started_def
      AdminDashboard_loadProject_settled_def)

lemma project_submit_accepted:
  "ProjectManagement_handleSubmit tok (Inr u) onUpdate (f, p) =
     ((f\<lparr>pm_loading := False\<rparr>, fst (snd onUpdate p)),
      Http (PutProject (pm_formData f) (bearer tok)) # fst onUpdate @ [Alert project_updated]
        @ snd (snd onUpdate p))"
  by (simp add: ProjectManagement_handleSubmit_def split: prod.splits)

text \<open>
  Claim C6. Submitting the project form sends the form, as it is, as the body of the one
  \<open>PUT\<close> request; when the backend accepts it the handler calls the refresh callback,
  reports the success and leaves the form data unchanged (in the dashboard the requests of
  the submit are that \<open>PUT\<close> and the \<open>GET\<close> of the refresh). The public page is then loaded
  again and the backend answers its project request with the body that was sent (the
  requests for the branches and the members, which \<open>loadData\<close> awaits first, succeed). The
  page then shows the submitted title and one paragraph for each part of the submitted
  content between newlines, in order: joining the paragraphs with newlines gives the content
  back, no paragraph contains a newline, and there is one paragraph more than there are
  newlines. The content \<open>A\<close>, newline, \<open>B\<close> gives the two paragraphs \<open>A\<close> and \<open>B\<close>.
\<close>

theorem project_roundtrip:
  "ProjectManagement_handleSubmit tok (Inr ()) onUpdate (f, p) =
     ((f\<lparr>pm_loading := False\<rparr>, fst (snd onUpdate p)),
      Http (PutProject (pm_formData f) (bearer tok)) # fst onUpdate @ [Alert project_updated]
        @ snd (snd onUpdate p)) \<and>
   requests (snd (ProjectManagement_handleSubmit tok (Inr ())
       (AdminDashboard_loadProject_started, AdminDashboard_loadProject_settled r) (f, d)))
     = [PutProject (pm_formData f) (bearer tok), GetProject] \<and>
   PublicHome_project (fst (loadData (Inr bp) (Inr ms) (Inr (pm_formData f)) ra s))
     = Some (titre (pm_formData f), split_on newline (contenu (pm_formData f))) \<and>
   join newline (split_on newline (contenu (pm_formData f))) = contenu (pm_formData f) \<and>
   (\<forall>para \<in> set (split_on newline (contenu (pm_formData f))). newline \<notin> set para) \<and>
   length (split_on newline (contenu (pm_formData f)))
     = Suc (count_list (contenu (pm_formData f)) newline) \<and>
   split_on newline (''A'' @ [newline] @ ''B'') = [''A'', ''B'']"
proof -
  have sent: "requests (snd (ProjectManagement_handleSubmit tok (Inr ())
       (AdminDashboard_loadProject_started, AdminDashboard_loadProject_settled r) (f, d)))
     = [PutProject (pm_formData f) (bearer tok), GetProject]"
    by (cases r)
      (simp_all add: project_submit_accepted AdminDashboard_loadProject_started_def
        AdminDashboard_loadProject_settled_def)
  have shown: "PublicHome_project (fst (loadData (Inr bp) (Inr ms) (Inr (pm_formData f)) ra s))
      = Some (titre (pm_formData f), split_on newline (contenu (pm_formData f)))"
    by (cases ra) (simp_all add: loadData_def PublicHome_project_def)
  have ab: "split_on newline (''A'' @ [newline] @ ''B'') = [''A'', ''B'']"
    by (simp add: newline_def)
  have free: "\<forall>para \<in> set (split_on newline (contenu (pm_formData f))). newline \<notin> set para"
    by (simp add: split_on_parts_free)
  show ?thesis
    by (intro conjI) (rule project_submit_accepted sent shown join_split_on free length_split_on ab)+
qed

theorem project_roundtrip_witness:
  "requests (snd (ProjectManagement_handleSubmit (Some ''t'') (Inr ())
       (AdminDashboard_loadProject_started, AdminDashboard_loadProject_settled (Inl NetworkError))
       (\<lparr>pm_formData = \<lparr>titre = ''X'', contenu = ''A'' @ [newline] @ ''B''\<rparr>,
         pm_loading = False\<rparr>, AdminDashboard_initial)))
     = [PutProject \<lparr>titre = ''X'', contenu = ''A'' @ [newline] @ ''B''\<rparr> (bearer (Some ''t'')),
        GetProject] \<and>
   PublicHome_project (fst (loadData (Inr \<lparr>branches = [], organs = []\<rparr>) (Inr [])
      (Inr \<lparr>titre = ''X'', contenu = ''A'' @ [newline] @ ''B''\<rparr>) (Inr []) PublicHome_initial))
     = Some (''X'', [''A'', ''B''])"
  using project_roundtrip
    [of "Some ''t''" "(AdminDashboard_loadProject_started,
          AdminDashboard_loadProject_settled (Inl NetworkError))"
      "\<lparr>pm_formData = \<lparr>titre = ''X'', contenu = ''A'' @ [newline] @ ''B''\<rparr>,
         pm_loading = False\<rparr>"
      AdminDashboard_initial "Inl NetworkError" AdminDashboard_initial
      "\<lparr>branches = [], organs = []\<rparr>" "[]" "Inr []" PublicHome_initial]
  by (simp add: newline_def AdminDashboard_loadProject_started_def
      AdminDashboard_loadProject_settled_def)

section \<open>Properties of the login view\<close>

lemma login_error_not_empty: "login_error \<noteq> []"
  by (simp add: login_error_def)

text \<open>
  Claim C7. For every rejected login attempt, whatever the reason of the rejection, the
  login view goes from its submitting state, where the button is disabled, to a state that
  shows the one fixed message and in which the button is enabled again, with the
  credentials kept; the session is left as it was, so an authenticated flag that was false
  remains false, in \<open>App\<close> and in \<open>AuthProvider\<close>.
\<close>

theorem rejected_login_shows_fixed_error:
  assumes "AdminLogin_handleLogin (Inl e) (l, w) = ((l', w'), tr)"
  shows "AdminLogin_submit_disabled (AdminLogin_submitting l) \<and>
         AdminLogin_error_shown l' = Some login_error \<and>
         \<not> AdminLogin_submit_disabled l' \<and>
         al_credentials l' = al_credentials l \<and>
         w' = w \<and>
         (\<not> isAuthenticated w \<longrightarrow> \<not> isAuthenticated w') \<and>
         (\<not> ctx_isAuthenticated w \<longrightarrow> \<not> ctx_isAuthenticated w') \<and>
         tr = [Http (PostLogin (al_credentials l))]"
  using assms login_error_not_empty
  by (auto simp: AdminLogin_handleLogin_def AdminLogin_submitting_def
      AdminLogin_error_shown_def AdminLogin_submit_disabled_def)

theorem rejected_login_shows_fixed_error_witness:
  "AdminLogin_handleLogin (Inl (BadStatus 401))
      (AdminLogin_initial, handleAdminClick (mount None))
     = ((\<lparr>al_credentials = \<lparr>username = [], password = []\<rparr>, al_loading = False,
          al_error = login_error\<rparr>, handleAdminClick (mount None)),
        [Http (PostLogin \<lparr>username = [], password = []\<rparr>)]) \<and>
   \<not> isAuthenticated (handleAdminClick (mount None)) \<and>
   AdminLogin_error_shown \<lparr>al_credentials = \<lparr>username = [], password = []\<rparr>,
      al_loading = False, al_error = login_error\<rparr> = Some login_error"
proof -
  have run: "AdminLogin_handleLogin (Inl (BadStatus 401))
      (AdminLogin_initial, handleAdminClick (mount None))
     = ((\<lparr>al_credentials = \<lparr>username = [], password = []\<rparr>, al_loading = False,
          al_error = login_error\<rparr>, handleAdminClick (mount None)),
        [Http (PostLogin \<lparr>username = [], password = []\<rparr>)])"
    by (simp add: AdminLogin_handleLogin_def AdminLogin_submitting_def AdminLogin_initial_def)
  have off: "\<not> isAuthenticated (handleAdminClick (mount None))"
    by (simp add: handleAdminClick_def mount_def truthy_def)
  from rejected_login_shows_fixed_error [OF run] run off show ?thesis
    by (simp add: AdminLogin_initial_def)
qed

section \<open>Properties of the management views\<close>



text \<open>
  Claim C8. A delete of a member or of an activity that the user does not confirm sends no
  request and leaves the view's state and its parent's state, which holds the entity list,
  as they were; the only effect is the prompt. A delete that the user confirms and the
  backend accepts sends the delete request and then calls the refresh callback once.
\<close>

theorem delete_needs_confirmation:
  "MembersManagement_handleDelete tok False r onUpdate memberId (s, p)
     = ((s, p), [Confirm confirm_delete_member]) \<and>
   requests (snd (MembersManagement_handleDelete tok False r onUpdate memberId (s, p))) = [] \<and>
   MembersManagement_handleDelete tok True (Inr ()) onUpdate memberId (s, p)
     = ((s, fst (onUpdate p)),
        Confirm confirm_delete_member # Http (DeleteMember memberId (bearer tok))
          # snd (onUpdate p)) \<and>
   ActivitiesManagement_handleDelete tok False r onUpdate' activityId (a, p)
     = ((a, p), [Confirm confirm_delete_activity]) \<and>
   requests (snd (ActivitiesManagement_handleDelete tok False r onUpdate' activityId (a, p))) = [] \<and>
   ActivitiesManagement_handleDelete tok True (Inr ()) onUpdate' activityId (a, p)
     = ((a, fst (onUpdate' p)),
        Confirm confirm_delete_activity # Http (DeleteActivity activityId (bearer tok))
          # snd (onUpdate' p))"
  by (simp add: MembersManagement_handleDelete_def ActivitiesManagement_handleDelete_def
      split: prod.splits)

end
